theory Spec2Isabelle
  imports Main
begin

section \<open>Identifiers and how they are printed\<close>

text \<open>
  \<^verbatim>\<open>PID\<close>, \<^verbatim>\<open>AID\<close> and \<^verbatim>\<open>UID\<close> are TypeScript \<^verbatim>\<open>number\<close>s used as identifiers, and
  \<^verbatim>\<open>KEY\<close> is a \<^verbatim>\<open>string\<close>. Identifiers are modelled as integers. A template literal
  \<^verbatim>\<open>`${n}`\<close> prints an integral number as its decimal numeral, with a leading minus sign
  when it is negative; \<open>toString\<close> is that printing.
\<close>

type_synonym PID = int
type_synonym AID = int
type_synonym DID = int
type_synonym UID = int
type_synonym KEY = string

definition digit_char :: "nat \<Rightarrow> char" where
  "digit_char n = ''0123456789'' ! (n mod 10)"

fun string_of_nat :: "nat \<Rightarrow> string" where
  "string_of_nat n =
     (if n < 10 then [digit_char n] else string_of_nat (n div 10) @ [digit_char n])"

declare string_of_nat.simps [simp del]

definition toString :: "int \<Rightarrow> string" where
  "toString i = (if i < 0 then CHR ''-'' # string_of_nat (nat (- i)) else string_of_nat (nat i))"

section \<open>Errors\<close>

text \<open>
  Every \<^verbatim>\<open>throw TypeError(message)\<close> of the source is \<open>TypeError message\<close>. Calling a
  method on \<^verbatim>\<open>undefined\<close> makes the JavaScript engine raise a \<^verbatim>\<open>TypeError\<close> of its own,
  whose message text depends on the engine: \<open>UndefinedReceiver m\<close> stands for it and
  records the method \<open>m\<close> that was called.
\<close>

datatype error = TypeError string | UndefinedReceiver string

type_synonym 'a result = "error + 'a"

text \<open>
  The names the specification gives to the three failures of the builder, each with the
  message the source builds for it.
\<close>

definition OverwriteError :: "PID \<Rightarrow> PID \<Rightarrow> error" where
  "OverwriteError existing incoming =
     TypeError (''attempting to overwrite entity '' @ toString existing @ '' with '' @ toString incoming)"

definition UnknownAttribute :: "AID \<Rightarrow> error" where
  "UnknownAttribute aid = TypeError (''unknown attribute '' @ toString aid @ ''.'')"

definition NoPIDSet :: error where
  "NoPIDSet = TypeError ''no pid set''"

section \<open>The attribute table\<close>

text \<open>
  Modelled from the spec: the classes \<^verbatim>\<open>Dimension\<close> and \<^verbatim>\<open>Matrix\<close> and the interfaces
  \<^verbatim>\<open>AttributeCoordinate\<close> and \<^verbatim>\<open>AttributeInfo\<close> are imported by
  \<^verbatim>\<open>matrix_entity_builder.ts\<close> from a module that is not among the sources. A dimension
  is an ordered set of attribute ids with a numeric id; a coordinate is a dimension and a
  position within it; a Matrix is constructed from a number and the ordered list of the
  dimensions it declares; the attribute table answers \<^verbatim>\<open>getAttributeCoordinates(aid)\<close> and
  \<^verbatim>\<open>getMatrixForEntity(pid)\<close>, each with a value or \<^verbatim>\<open>undefined\<close>.
\<close>

record Dimension =
  id_dimension :: DID
  attributes :: "AID list"

record AttributeCoordinate =
  dimension :: Dimension
  position :: int

record Matrix =
  dimensionCount :: int
  dimensions :: "Dimension list"

record AttributeInfo =
  getAttributeCoordinates :: "AID \<Rightarrow> AttributeCoordinate option"
  getMatrixForEntity :: "PID \<Rightarrow> Matrix option"

definition Matrix_new :: "int \<Rightarrow> Dimension list \<Rightarrow> Matrix" where
  "Matrix_new n ds = \<lparr>dimensionCount = n, dimensions = ds\<rparr>"

text \<open>
  Modelled from the spec: \<^verbatim>\<open>Matrix.hasDimension\<close> is not among the sources; it is the
  membership test of a dimension id among the dimensions the Matrix declares.
\<close>

definition hasDimension :: "Matrix \<Rightarrow> DID \<Rightarrow> bool" where
  "hasDimension m did = (did \<in> set (map id_dimension (dimensions m)))"

section \<open>The JavaScript Map of the builder\<close>

text \<open>
  A \<^verbatim>\<open>Map\<close> iterates its entries in the order the keys were first inserted, so it is an
  association list. \<^verbatim>\<open>set\<close> on a key that is present replaces the value where it stands;
  on a new key it appends the entry.
\<close>

type_synonym ('k, 'v) jsmap = "('k \<times> 'v) list"

definition Map_has :: "('k, 'v) jsmap \<Rightarrow> 'k \<Rightarrow> bool" where
  "Map_has m k = (k \<in> set (map fst m))"

definition Map_get :: "('k, 'v) jsmap \<Rightarrow> 'k \<Rightarrow> 'v option" where
  "Map_get m k = map_of m k"

fun Map_set :: "('k, 'v) jsmap \<Rightarrow> 'k \<Rightarrow> 'v \<Rightarrow> ('k, 'v) jsmap" where
  "Map_set [] k v = [(k, v)]"
| "Map_set ((k', v') # m) k v = (if k' = k then (k, v) # m else (k', v') # Map_set m k v)"

definition Map_entries :: "('k, 'v) jsmap \<Rightarrow> ('k \<times> 'v) list" where
  "Map_entries m = m"

section \<open>MatrixEntityBuilder\<close>

text \<open>
  The three fields of the class. A method that may change a field returns its outcome
  together with the builder as the call leaves it, also when the call throws: a caller
  that catches the exception goes on with that builder.
\<close>

record MatrixEntityBuilder =
  info :: AttributeInfo
  pid :: "PID option"
  dimensionIdToAttribute :: "(DID, AID) jsmap"

definition MatrixEntityBuilder_new :: "AttributeInfo \<Rightarrow> MatrixEntityBuilder" where
  "MatrixEntityBuilder_new table = \<lparr>info = table, pid = None, dimensionIdToAttribute = []\<rparr>"

definition hasPID :: "MatrixEntityBuilder \<Rightarrow> bool" where
  "hasPID b = (pid b \<noteq> None)"

definition setPID :: "MatrixEntityBuilder \<Rightarrow> PID \<Rightarrow> bool result \<times> MatrixEntityBuilder" where
  "setPID b p =
     (case pid b of
        None \<Rightarrow> (Inr True, b\<lparr>pid := Some p\<rparr>)
      | Some existing \<Rightarrow>
          (Inl (TypeError (''attempting to overwrite entity '' @ toString existing
                             @ '' with '' @ toString p)), b))"

definition addAttribute :: "MatrixEntityBuilder \<Rightarrow> AID \<Rightarrow> bool result \<times> MatrixEntityBuilder" where
  "addAttribute b attributeID =
     (case getAttributeCoordinates (info b) attributeID of
        None \<Rightarrow> (Inl (TypeError (''unknown attribute '' @ toString attributeID @ ''.'')), b)
      | Some coordinate \<Rightarrow>
          if Map_has (dimensionIdToAttribute b) (id_dimension (dimension coordinate))
          then (Inr False, b)
          else (Inr True,
                b\<lparr>dimensionIdToAttribute :=
                    Map_set (dimensionIdToAttribute b)
                      (id_dimension (dimension coordinate)) attributeID\<rparr>))"

text \<open>
  A caller's use of one builder is a sequence of calls; \<open>steps\<close> gives the builder after
  them, whatever each call returned or threw.
\<close>

datatype op = SetPID PID | AddAttribute AID

fun is_SetPID :: "op \<Rightarrow> bool" where
  "is_SetPID (SetPID p) = True"
| "is_SetPID (AddAttribute a) = False"

fun step :: "MatrixEntityBuilder \<Rightarrow> op \<Rightarrow> MatrixEntityBuilder" where
  "step b (SetPID p) = snd (setPID b p)"
| "step b (AddAttribute a) = snd (addAttribute b a)"

definition steps :: "MatrixEntityBuilder \<Rightarrow> op list \<Rightarrow> MatrixEntityBuilder" where
  "steps b ops = foldl step b ops"

section \<open>Building the key\<close>

text \<open>
  Modelled from the spec: \<^verbatim>\<open>Matrix.getKey\<close> is not among the sources. For each dimension
  the Matrix declares, in the Matrix's own order, it looks up the attribute id the caller
  supplied for that dimension; a dimension without one is filled with a wildcard marker
  rather than failing. The key is the PID and the tokens of the dimensions, joined; the
  scenario of the specification fixes the form \<^verbatim>\<open>1:0:1\<close>, a token being the position of
  the attribute within its dimension as the attribute table gives it. The wildcard is
  the \<^verbatim>\<open>\d+\<close> that the comment on \<^verbatim>\<open>createItem\<close> names. The specification does not say
  what the token of an attribute id without a coordinate is; the model leaves such a
  dimension as a wildcard as well.
\<close>

definition wildcard :: string where
  "wildcard = [CHR 0x5C, CHR ''d'', CHR ''+'']"

fun join :: "string \<Rightarrow> string list \<Rightarrow> string" where
  "join sep [] = []"
| "join sep [x] = x"
| "join sep (x # y # xs) = x @ sep @ join sep (y # xs)"

definition dimensionToken :: "AttributeInfo \<Rightarrow> (DID, AID) jsmap \<Rightarrow> Dimension \<Rightarrow> string" where
  "dimensionToken table m d =
     (case Map_get m (id_dimension d) of
        None \<Rightarrow> wildcard
      | Some aid \<Rightarrow>
          (case getAttributeCoordinates table aid of
             None \<Rightarrow> wildcard
           | Some coordinate \<Rightarrow> toString (position coordinate)))"

definition Matrix_getKey :: "Matrix \<Rightarrow> PID \<Rightarrow> (DID, AID) jsmap \<Rightarrow> AttributeInfo \<Rightarrow> KEY" where
  "Matrix_getKey m p assignment table =
     join '':'' (toString p # map (dimensionToken table assignment) (dimensions m))"

text \<open>
  \<^verbatim>\<open>getKey\<close> of the builder reads the fields and changes none. Where the attribute table
  has no Matrix for the PID, the source calls \<^verbatim>\<open>getKey\<close> on \<^verbatim>\<open>undefined\<close>.
\<close>

definition getKey :: "MatrixEntityBuilder \<Rightarrow> KEY result" where
  "getKey b =
     (case pid b of
        None \<Rightarrow> Inl (TypeError ''no pid set'')
      | Some p \<Rightarrow>
          (case getMatrixForEntity (info b) p of
             None \<Rightarrow> Inl (UndefinedReceiver ''getKey'')
           | Some matrix \<Rightarrow> Inr (Matrix_getKey matrix p (dimensionIdToAttribute b) (info b))))"

text \<open>
  The generator \<^verbatim>\<open>getUnusedAttributes\<close> is finite; the list is what it yields, in order.
\<close>

definition getUnusedAttributes :: "MatrixEntityBuilder \<Rightarrow> AID list" where
  "getUnusedAttributes b =
     (let matrix = (case pid b of None \<Rightarrow> None | Some p \<Rightarrow> getMatrixForEntity (info b) p);
          matrix = (case matrix of None \<Rightarrow> Matrix_new 0 [] | Some m \<Rightarrow> m)
      in map snd (filter (\<lambda>(did, aid). \<not> hasDimension matrix did)
                    (Map_entries (dimensionIdToAttribute b))))"

text \<open>
  The attribute ids a sequence of calls has collected: those for which \<^verbatim>\<open>addAttribute\<close>
  returned true, in the order of the calls.
\<close>

fun collected :: "MatrixEntityBuilder \<Rightarrow> op list \<Rightarrow> AID list" where
  "collected b [] = []"
| "collected b (SetPID p # ops) = collected (step b (SetPID p)) ops"
| "collected b (AddAttribute a # ops) =
     (if fst (addAttribute b a) = Inr True then [a] else [])
       @ collected (step b (AddAttribute a)) ops"

text \<open>The entry \<^verbatim>\<open>addAttribute\<close> stores for an attribute id, if the table knows it.\<close>

definition entryOf :: "AttributeInfo \<Rightarrow> AID \<Rightarrow> (DID \<times> AID) list" where
  "entryOf table a =
     (case getAttributeCoordinates table a of
        None \<Rightarrow> []
      | Some coordinate \<Rightarrow> [(id_dimension (dimension coordinate), a)])"

text \<open>Whether a Matrix declares the dimension the attribute table gives an attribute id.\<close>

definition declaresDimensionOf :: "AttributeInfo \<Rightarrow> Matrix \<Rightarrow> AID \<Rightarrow> bool" where
  "declaresDimensionOf table m a =
     (case getAttributeCoordinates table a of
        None \<Rightarrow> False
      | Some coordinate \<Rightarrow> hasDimension m (id_dimension (dimension coordinate)))"

section \<open>The child-validity tensor\<close>

text \<open>
  Modelled from the spec: the interface \<^verbatim>\<open>RuleConfig\<close> is imported from a module that is
  not among the sources; it is an ordered sequence of rules, each a record with a
  \<^verbatim>\<open>partialKey\<close>, the only field the factory reads.

  The tensor is an object indexed by strings; the model is the map of the properties the
  factory assigns. \<open>rulePredicate\<close> is the arrow function the loop creates for a rule.
\<close>

record Rule =
  partialKey :: KEY

record RuleConfig =
  rules :: "Rule list"

type_synonym ValidChildPredicate = "KEY \<Rightarrow> bool"

type_synonym ValidChildTensor = "string \<rightharpoonup> ValidChildPredicate"

definition rulePredicate :: "Rule \<Rightarrow> ValidChildPredicate" where
  "rulePredicate rule = (\<lambda>child. False)"

definition childTensorFactory :: "RuleConfig \<Rightarrow> ValidChildTensor" where
  "childTensorFactory ruleSet =
     foldl (\<lambda>childTensor rule. childTensor(partialKey rule \<mapsto> rulePredicate rule))
       Map.empty (rules ruleSet)"

text \<open>
  Modelled from the spec: the code that consults the tensor is not among the sources. A
  child is legal at a coordinate when the predicate the tensor holds for that partial key
  accepts it; a coordinate for which the tensor holds no predicate imposes no constraint.
\<close>

definition legalAt :: "ValidChildTensor \<Rightarrow> KEY \<Rightarrow> KEY \<Rightarrow> bool" where
  "legalAt tensor k child = (case tensor k of None \<Rightarrow> True | Some p \<Rightarrow> p child)"

section \<open>The cart\<close>

datatype ItemInstance =
  ItemInstance (uid: UID) (key: KEY) (quantity: int) (children: "ItemInstance list")

record Cart =
  items :: "ItemInstance list"

text \<open>
  Modelled from the spec: the class that implements \<^verbatim>\<open>ICartOps\<close> is not among the
  sources, which hold the interface alone. \<^verbatim>\<open>removeFromCart\<close> produces a copy of the cart
  omitting the item with the uid that is passed in; \<^verbatim>\<open>replaceInCart\<close> produces a copy of
  the cart where the item that shares the new item's uid is replaced, in place of order,
  with the new item. A uid that no item of the cart has is the failure \<^verbatim>\<open>NotFound\<close>, which
  is reported and not silently ignored; the operation is then a no-op and the item
  sequence is that of the original cart. Each operation is modelled by the cart it
  produces together with the failure it reports, if any.
\<close>

datatype failure = NotFound UID

definition removeFromCart :: "Cart \<Rightarrow> UID \<Rightarrow> Cart \<times> failure option" where
  "removeFromCart cart u =
     (if u \<in> set (map uid (items cart))
      then (cart\<lparr>items := filter (\<lambda>item. uid item \<noteq> u) (items cart)\<rparr>, None)
      else (cart, Some (NotFound u)))"

definition replaceInCart :: "Cart \<Rightarrow> ItemInstance \<Rightarrow> Cart \<times> failure option" where
  "replaceInCart cart item =
     (if uid item \<in> set (map uid (items cart))
      then (cart\<lparr>items := map (\<lambda>old. if uid old = uid item then item else old) (items cart)\<rparr>,
            None)
      else (cart, Some (NotFound (uid item))))"

section \<open>The scenario of the specification\<close>

text \<open>
  The entity \<^verbatim>\<open>cone\<close> (PID 1) varies over \<^verbatim>\<open>size\<close> (small, medium, large: attribute ids 1,
  2, 3) and \<^verbatim>\<open>flavor\<close> (vanilla, chocolate: attribute ids 4, 5); PID 2 is an entity with
  a Matrix of no dimensions, PID 4 one that varies over \<^verbatim>\<open>size\<close> alone, and no other PID
  has a Matrix.
\<close>

definition size_d :: Dimension where
  "size_d = \<lparr>id_dimension = 1, attributes = [1, 2, 3]\<rparr>"

definition flavor_d :: Dimension where
  "flavor_d = \<lparr>id_dimension = 2, attributes = [4, 5]\<rparr>"

definition cone_coordinates :: "AID \<Rightarrow> AttributeCoordinate option" where
  "cone_coordinates a =
     (if a = 1 then Some \<lparr>dimension = size_d, position = 0\<rparr>
      else if a = 2 then Some \<lparr>dimension = size_d, position = 1\<rparr>
      else if a = 3 then Some \<lparr>dimension = size_d, position = 2\<rparr>
      else if a = 4 then Some \<lparr>dimension = flavor_d, position = 0\<rparr>
      else if a = 5 then Some \<lparr>dimension = flavor_d, position = 1\<rparr>
      else None)"

definition cone_matrices :: "PID \<Rightarrow> Matrix option" where
  "cone_matrices p =
     (if p = 1 then Some (Matrix_new 2 [size_d, flavor_d])
      else if p = 2 then Some (Matrix_new 0 [])
      else if p = 4 then Some (Matrix_new 1 [size_d])
      else None)"

definition cone_info :: AttributeInfo where
  "cone_info = \<lparr>getAttributeCoordinates = cone_coordinates, getMatrixForEntity = cone_matrices\<rparr>"

text \<open>A rule set in which two rules share a partial key, and a cart of two items.\<close>

definition two_rules :: RuleConfig where
  "two_rules = \<lparr>rules = [\<lparr>partialKey = ''1:*''\<rparr>, \<lparr>partialKey = ''2''\<rparr>, \<lparr>partialKey = ''1:*''\<rparr>]\<rparr>"

definition two_items :: Cart where
  "two_items = \<lparr>items = [ItemInstance 7 ''1:0:1'' 1 [], ItemInstance 8 ''2'' 3 []]\<rparr>"

section \<open>Properties of the Map\<close>

lemma Map_set_absent: "\<not> Map_has m k \<Longrightarrow> Map_set m k v = m @ [(k, v)]"
  by (induction m) (auto simp: Map_has_def)

lemma Map_get_append_absent:
  "\<not> Map_has m k \<Longrightarrow> Map_get (m @ [(k, v)]) k' = (if k' = k then Some v else Map_get m k')"
  by (induction m) (auto simp: Map_has_def Map_get_def)

section \<open>Properties of the builder's calls\<close>

lemma step_info: "info (step b x) = info b"
  by (cases x) (auto simp: setPID_def addAttribute_def split: option.splits)

lemma steps_info: "info (steps b ops) = info b"
  unfolding steps_def by (induction ops arbitrary: b) (simp_all add: step_info)

lemma step_pid_Some: "pid b = Some p \<Longrightarrow> pid (step b x) = Some p"
  by (cases x) (auto simp: setPID_def addAttribute_def split: option.splits)

lemma steps_pid_Some: "pid b = Some p \<Longrightarrow> pid (steps b ops) = Some p"
  unfolding steps_def by (induction ops arbitrary: b) (simp_all add: step_pid_Some)

lemma step_pid_None: "pid b = None \<Longrightarrow> \<not> is_SetPID x \<Longrightarrow> pid (step b x) = None"
  by (cases x) (auto simp: addAttribute_def split: option.splits)

lemma steps_pid_None:
  "pid b = None \<Longrightarrow> list_all (\<lambda>x. \<not> is_SetPID x) ops \<Longrightarrow> pid (steps b ops) = None"
  unfolding steps_def by (induction ops arbitrary: b) (simp_all add: step_pid_None)



lemma step_entries:
  "dimensionIdToAttribute (step b x) =
     dimensionIdToAttribute b @
       (case x of
          SetPID p \<Rightarrow> []
        | AddAttribute a \<Rightarrow>
            if fst (addAttribute b a) = Inr True then entryOf (info b) a else [])"
  by (cases x)
    (auto simp: setPID_def addAttribute_def entryOf_def Map_set_absent split: option.splits)

lemma collected_known:
  "a \<in> set (collected b ops) \<Longrightarrow> getAttributeCoordinates (info b) a \<noteq> None"
proof (induction b ops rule: collected.induct)
  case (1 b)
  then show ?case by simp
next
  case (2 b p ops)
  then show ?case by (simp add: step_info del: step.simps)
next
  case (3 b a' ops)
  then show ?case
    by (auto simp: step_info addAttribute_def simp del: step.simps split: option.splits if_splits)
qed

lemma steps_entries:
  "dimensionIdToAttribute (steps b ops) =
     dimensionIdToAttribute b @ concat (map (entryOf (info b)) (collected b ops))"
proof (induction b ops rule: collected.induct)
  case (1 b)
  then show ?case by (simp add: steps_def)
next
  case (2 b p ops)
  then show ?case
    by (simp add: steps_def step_info step_entries del: step.simps)
next
  case (3 b a ops)
  then show ?case
    by (simp add: steps_def step_info step_entries del: step.simps)
qed

lemma unused_of_collected:
  "\<forall>a \<in> set as. getAttributeCoordinates table a \<noteq> None \<Longrightarrow>
   map snd (filter (\<lambda>(did, aid). \<not> hasDimension m did) (concat (map (entryOf table) as))) =
     filter (\<lambda>a. \<not> declaresDimensionOf table m a) as"
  by (induction as) (auto simp: entryOf_def declaresDimensionOf_def)


section \<open>Properties of the tensor and of the cart\<close>

lemma tensor_fold:
  "foldl (\<lambda>childTensor rule. childTensor(partialKey rule \<mapsto> rulePredicate rule)) t rs k =
     (if k \<in> set (map partialKey rs) then Some (\<lambda>child. False) else t k)"
  by (induction rs arbitrary: t) (auto simp: rulePredicate_def)

lemma childTensorFactory_lookup:
  "childTensorFactory ruleSet k =
     (if k \<in> set (map partialKey (rules ruleSet)) then Some (\<lambda>child. False) else None)"
  by (simp add: childTensorFactory_def tensor_fold)

lemma filter_uid_absent:
  "u \<notin> set (map uid xs) \<Longrightarrow> filter (\<lambda>item. uid item \<noteq> u) xs = xs"
  by (induction xs) auto

section \<open>Evaluating the scenario\<close>

lemma toString_1: "toString 1 = ''1''"
  by (simp add: toString_def string_of_nat.simps digit_char_def)


lemmas cone_defs = cone_info_def cone_coordinates_def cone_matrices_def size_d_def flavor_d_def
  Matrix_new_def MatrixEntityBuilder_new_def

section \<open>The claims\<close>

text \<open>
  C1: \<^verbatim>\<open>addAttribute(A)\<close> fails with \<open>UnknownAttribute\<close> when the attribute table has no
  coordinate for \<open>A\<close>; when the builder already holds an attribute for the dimension of
  \<open>A\<close> it returns false without throwing and leaves the builder, hence the mapping from
  dimensions to attributes, as it was; otherwise it returns true and records \<open>A\<close> for
  that dimension, as the last entry of the mapping, every other dimension keeping what
  it had.
\<close>

theorem addAttribute_first_writer_wins:
  "(getAttributeCoordinates (info b) a = None \<longrightarrow>
      fst (addAttribute b a) = Inl (UnknownAttribute a)) \<and>
   (\<forall>c. getAttributeCoordinates (info b) a = Some c \<and>
        Map_has (dimensionIdToAttribute b) (id_dimension (dimension c)) \<longrightarrow>
      addAttribute b a = (Inr False, b)) \<and>
   (\<forall>c. getAttributeCoordinates (info b) a = Some c \<and>
        \<not> Map_has (dimensionIdToAttribute b) (id_dimension (dimension c)) \<longrightarrow>
      fst (addAttribute b a) = Inr True \<and>
      snd (addAttribute b a) =
        b\<lparr>dimensionIdToAttribute := dimensionIdToAttribute b @ [(id_dimension (dimension c), a)]\<rparr> \<and>
      (\<forall>d. Map_get (dimensionIdToAttribute (snd (addAttribute b a))) d =
           (if d = id_dimension (dimension c) then Some a
            else Map_get (dimensionIdToAttribute b) d)))"
  by (auto simp: addAttribute_def UnknownAttribute_def Map_set_absent Map_get_append_absent)

theorem addAttribute_first_writer_wins_witness:
  "fst (addAttribute (MatrixEntityBuilder_new cone_info) 9) = Inl (UnknownAttribute 9) \<and>
   addAttribute (MatrixEntityBuilder_new cone_info\<lparr>dimensionIdToAttribute := [(1, 1)]\<rparr>) 3
     = (Inr False, MatrixEntityBuilder_new cone_info\<lparr>dimensionIdToAttribute := [(1, 1)]\<rparr>) \<and>
   snd (addAttribute (MatrixEntityBuilder_new cone_info\<lparr>dimensionIdToAttribute := [(1, 1)]\<rparr>) 5)
     = MatrixEntityBuilder_new cone_info\<lparr>dimensionIdToAttribute := [(1, 1), (2, 5)]\<rparr>"
  using addAttribute_first_writer_wins [of "MatrixEntityBuilder_new cone_info" 9]
    addAttribute_first_writer_wins
      [of "MatrixEntityBuilder_new cone_info\<lparr>dimensionIdToAttribute := [(1, 1)]\<rparr>" 3]
    addAttribute_first_writer_wins
      [of "MatrixEntityBuilder_new cone_info\<lparr>dimensionIdToAttribute := [(1, 1)]\<rparr>" 5]
  by (simp add: cone_defs Map_has_def)

text \<open>
  C2: on a builder whose PID no call has set yet, \<^verbatim>\<open>setPID\<close> succeeds and stores the PID;
  whatever calls follow, every later \<^verbatim>\<open>setPID\<close> throws the overwrite error, whose message
  names the stored PID and the incoming one, and leaves the builder as it was. The
  incoming PID is arbitrary, so it may be the stored one.
\<close>

theorem setPID_only_once:
  assumes "list_all (\<lambda>x. \<not> is_SetPID x) before"
  shows "fst (setPID (steps (MatrixEntityBuilder_new table) before) p) = Inr True \<and>
    pid (snd (setPID (steps (MatrixEntityBuilder_new table) before) p)) = Some p \<and>
    setPID (steps (snd (setPID (steps (MatrixEntityBuilder_new table) before) p)) between) q =
      (Inl (TypeError (''attempting to overwrite entity '' @ toString p @ '' with '' @ toString q)),
       steps (snd (setPID (steps (MatrixEntityBuilder_new table) before) p)) between) \<and>
    fst (setPID (steps (snd (setPID (steps (MatrixEntityBuilder_new table) before) p)) between) q) =
      Inl (OverwriteError p q)"
proof -
  let ?b1 = "steps (MatrixEntityBuilder_new table) before"
  have none: "pid ?b1 = None"
    using assms by (intro steps_pid_None) (simp_all add: MatrixEntityBuilder_new_def)
  then have first: "setPID ?b1 p = (Inr True, ?b1\<lparr>pid := Some p\<rparr>)"
    by (simp add: setPID_def)
  let ?b2 = "steps (snd (setPID ?b1 p)) between"
  have "pid ?b2 = Some p"
    by (rule steps_pid_Some) (simp add: first)
  then have later: "setPID ?b2 q =
      (Inl (TypeError (''attempting to overwrite entity '' @ toString p @ '' with '' @ toString q)), ?b2)"
    by (simp add: setPID_def)
  show ?thesis
    using first later by (simp add: OverwriteError_def)
qed

theorem setPID_only_once_witness:
  "fst (setPID (steps (MatrixEntityBuilder_new cone_info) [AddAttribute 1]) 1) = Inr True \<and>
   fst (setPID (steps (snd (setPID (steps (MatrixEntityBuilder_new cone_info) [AddAttribute 1]) 1))
          [AddAttribute 5, SetPID 2]) 1)
     = Inl (TypeError ''attempting to overwrite entity 1 with 1'')"
  using setPID_only_once [of "[AddAttribute 1]" cone_info 1 "[AddAttribute 5, SetPID 2]" 1]
  by (simp add: toString_1)

text \<open>
  C10: a call of \<^verbatim>\<open>setPID\<close> or of \<^verbatim>\<open>addAttribute\<close> that throws leaves the builder (its
  PID, its mapping from dimensions to attributes and its attribute table) exactly as it
  was before the call. \<^verbatim>\<open>setPID\<close> throws exactly on a builder that has a PID, and
  \<^verbatim>\<open>addAttribute\<close> exactly on an attribute id without a coordinate.
\<close>

theorem failing_calls_leave_builder:
  "(\<forall>e. fst (setPID b p) = Inl e \<longrightarrow> snd (setPID b p) = b) \<and>
   (\<forall>e. fst (addAttribute b a) = Inl e \<longrightarrow> snd (addAttribute b a) = b) \<and>
   ((\<exists>e. fst (setPID b p) = Inl e) \<longleftrightarrow> pid b \<noteq> None) \<and>
   ((\<exists>e. fst (addAttribute b a) = Inl e) \<longleftrightarrow> getAttributeCoordinates (info b) a = None)"
  by (auto simp: setPID_def addAttribute_def split: option.splits if_splits)

theorem failing_calls_leave_builder_witness:
  "snd (setPID (MatrixEntityBuilder_new cone_info\<lparr>pid := Some 1, dimensionIdToAttribute := [(1, 1)]\<rparr>) 2)
     = MatrixEntityBuilder_new cone_info\<lparr>pid := Some 1, dimensionIdToAttribute := [(1, 1)]\<rparr> \<and>
   snd (addAttribute (MatrixEntityBuilder_new cone_info\<lparr>pid := Some 1, dimensionIdToAttribute := [(1, 1)]\<rparr>) 9)
     = MatrixEntityBuilder_new cone_info\<lparr>pid := Some 1, dimensionIdToAttribute := [(1, 1)]\<rparr>"
  using failing_calls_leave_builder
    [of "MatrixEntityBuilder_new cone_info\<lparr>pid := Some 1, dimensionIdToAttribute := [(1, 1)]\<rparr>" 2 9]
  by (simp add: cone_defs)




text \<open>
  C9: when a PID is set and the attribute table has no Matrix for it, \<^verbatim>\<open>getKey\<close> calls
  \<^verbatim>\<open>getKey\<close> on \<^verbatim>\<open>undefined\<close>: the engine's error comes out, which is neither a key nor
  the \<^verbatim>\<open>no pid set\<close> error. So \<^verbatim>\<open>getKey\<close> returns a key or signals \<^verbatim>\<open>no pid set\<close> only
  if the builder has no PID or the table holds a Matrix for its PID.
\<close>

theorem getKey_missing_Matrix_unguarded:
  "(\<forall>p. pid b = Some p \<and> getMatrixForEntity (info b) p = None \<longrightarrow>
      getKey b = Inl (UndefinedReceiver ''getKey'') \<and> getKey b \<noteq> Inl NoPIDSet) \<and>
   ((\<exists>k. getKey b = Inr k) \<or> getKey b = Inl NoPIDSet \<longrightarrow>
      pid b = None \<or> (\<exists>p m. pid b = Some p \<and> getMatrixForEntity (info b) p = Some m))"
  by (auto simp: getKey_def NoPIDSet_def split: option.splits)

theorem getKey_missing_Matrix_unguarded_witness:
  "getKey (MatrixEntityBuilder_new cone_info\<lparr>pid := Some 3\<rparr>) = Inl (UndefinedReceiver ''getKey'') \<and>
   getKey (MatrixEntityBuilder_new cone_info\<lparr>pid := Some 3\<rparr>) \<noteq> Inl NoPIDSet \<and>
   (\<exists>m. getMatrixForEntity cone_info 2 = Some m)"
  using getKey_missing_Matrix_unguarded [of "MatrixEntityBuilder_new cone_info\<lparr>pid := Some 3\<rparr>"]
    getKey_missing_Matrix_unguarded [of "MatrixEntityBuilder_new cone_info\<lparr>pid := Some 2\<rparr>"]
  by (simp add: cone_defs NoPIDSet_def)

text \<open>
  C6: for a builder made by the constructor and any sequence of calls,
  \<^verbatim>\<open>getUnusedAttributes\<close> yields, in the order they were collected, exactly the collected
  attribute ids whose dimension the Matrix of the builder's PID does not declare; with no
  PID set, or with a PID for which the attribute table has no Matrix, it yields all the
  collected attribute ids in that order.
\<close>

theorem getUnusedAttributes_collected:
  assumes "b = steps (MatrixEntityBuilder_new table) ops"
    and "cs = collected (MatrixEntityBuilder_new table) ops"
  shows "(pid b = None \<longrightarrow> getUnusedAttributes b = cs) \<and>
    (\<forall>p. pid b = Some p \<and> getMatrixForEntity table p = None \<longrightarrow> getUnusedAttributes b = cs) \<and>
    (\<forall>p m. pid b = Some p \<and> getMatrixForEntity table p = Some m \<longrightarrow>
       getUnusedAttributes b = filter (\<lambda>a. \<not> declaresDimensionOf table m a) cs)"
proof -
  have inf: "info b = table"
    using assms by (simp add: steps_info MatrixEntityBuilder_new_def)
  have known: "\<forall>a \<in> set cs. getAttributeCoordinates table a \<noteq> None"
    using collected_known [of _ "MatrixEntityBuilder_new table" ops] assms
    by (auto simp: MatrixEntityBuilder_new_def)
  have entries: "dimensionIdToAttribute b = concat (map (entryOf table) cs)"
    using steps_entries [of "MatrixEntityBuilder_new table" ops] assms
    by (simp add: MatrixEntityBuilder_new_def)
  have unused: "map snd (filter (\<lambda>(did, aid). \<not> hasDimension m did) (dimensionIdToAttribute b)) =
      filter (\<lambda>a. \<not> declaresDimensionOf table m a) cs" for m
    using unused_of_collected [OF known] entries by simp
  have empty: "filter (\<lambda>a. \<not> declaresDimensionOf table (Matrix_new 0 []) a) cs = cs"
    by (simp add: declaresDimensionOf_def hasDimension_def Matrix_new_def split: option.splits)
  show ?thesis
    using unused empty inf
    by (auto simp: getUnusedAttributes_def Map_entries_def)
qed

theorem getUnusedAttributes_collected_witness:
  "getUnusedAttributes (steps (MatrixEntityBuilder_new cone_info)
      [AddAttribute 5, AddAttribute 9, AddAttribute 1, AddAttribute 4]) = [5, 1] \<and>
   getUnusedAttributes (steps (MatrixEntityBuilder_new cone_info)
      [AddAttribute 5, SetPID 3, AddAttribute 1]) = [5, 1] \<and>
   getUnusedAttributes (steps (MatrixEntityBuilder_new cone_info)
      [AddAttribute 5, SetPID 4, AddAttribute 1]) = [5]"
  using getUnusedAttributes_collected
      [of _ cone_info "[AddAttribute 5, AddAttribute 9, AddAttribute 1, AddAttribute 4]", OF refl refl]
    getUnusedAttributes_collected
      [of _ cone_info "[AddAttribute 5, SetPID 3, AddAttribute 1]", OF refl refl]
    getUnusedAttributes_collected
      [of _ cone_info "[AddAttribute 5, SetPID 4, AddAttribute 1]", OF refl refl]
  by (simp add: cone_defs steps_def addAttribute_def setPID_def Map_has_def
      declaresDimensionOf_def hasDimension_def)

text \<open>
  C4: in the tensor built from a rule set, a child is legal at a partial key exactly when
  the predicate of every rule with that partial key accepts it. Where rules share the
  partial key, the tensor holds a predicate there that accepts what all of them accept;
  where no rule has the partial key, the tensor holds no predicate and every child is
  legal.
\<close>

theorem childTensor_legal_conjunction:
  "(legalAt (childTensorFactory ruleSet) k child \<longleftrightarrow>
      (\<forall>rule \<in> set (rules ruleSet). partialKey rule = k \<longrightarrow> rulePredicate rule child)) \<and>
   ((\<exists>rule \<in> set (rules ruleSet). partialKey rule = k) \<longrightarrow>
      (\<exists>p. childTensorFactory ruleSet k = Some p \<and>
           (p child \<longleftrightarrow>
              (\<forall>rule \<in> set (rules ruleSet). partialKey rule = k \<longrightarrow> rulePredicate rule child)))) \<and>
   ((\<forall>rule \<in> set (rules ruleSet). partialKey rule \<noteq> k) \<longrightarrow>
      childTensorFactory ruleSet k = None \<and> legalAt (childTensorFactory ruleSet) k child)"
  by (auto simp: legalAt_def childTensorFactory_lookup rulePredicate_def)

theorem childTensor_legal_conjunction_witness:
  "\<not> legalAt (childTensorFactory two_rules) ''1:*'' ''9'' \<and>
   \<not> legalAt (childTensorFactory two_rules) ''2'' ''9'' \<and>
   childTensorFactory two_rules ''3'' = None \<and>
   legalAt (childTensorFactory two_rules) ''3'' ''9''"
  using childTensor_legal_conjunction [of two_rules "''1:*''" "''9''"]
    childTensor_legal_conjunction [of two_rules "''2''" "''9''"]
    childTensor_legal_conjunction [of two_rules "''3''" "''9''"]
  by (simp add: two_rules_def rulePredicate_def)

text \<open>
  C5: the tensor that \<^verbatim>\<open>childTensorFactory\<close> returns holds a predicate at the partial key
  of every rule, and at no other key; every predicate it holds returns false for every
  child.
\<close>

theorem childTensorFactory_rejects_all:
  "(\<forall>rule \<in> set (rules ruleSet). \<exists>p. childTensorFactory ruleSet (partialKey rule) = Some p) \<and>
   (\<forall>k p child. childTensorFactory ruleSet k = Some p \<longrightarrow> \<not> p child) \<and>
   dom (childTensorFactory ruleSet) = set (map partialKey (rules ruleSet))"
  by (auto simp: childTensorFactory_lookup split: if_splits)

theorem childTensorFactory_rejects_all_witness:
  "(\<exists>p. childTensorFactory two_rules ''2'' = Some p \<and> \<not> p ''9'') \<and>
   dom (childTensorFactory two_rules) = {''1:*'', ''2''}"
  using childTensorFactory_rejects_all [of two_rules]
  by (auto simp add: two_rules_def)

text \<open>
  C7: the cart \<^verbatim>\<open>removeFromCart\<close> produces has no item with the uid that was passed in;
  when the uids of the cart are distinct, it is the cart without the one item of that
  uid, the items before and after it in their order; when no item has that uid, its items
  are those of the original, so the lists of uids are equal.
\<close>

theorem removeFromCart_excludes_uid:
  "u \<notin> set (map uid (items (fst (removeFromCart cart u)))) \<and>
   (distinct (map uid (items cart)) \<and> items cart = xs @ [item] @ ys \<and> uid item = u \<longrightarrow>
      items (fst (removeFromCart cart u)) = xs @ ys) \<and>
   (u \<notin> set (map uid (items cart)) \<longrightarrow>
      items (fst (removeFromCart cart u)) = items cart \<and>
      map uid (items (fst (removeFromCart cart u))) = map uid (items cart))"
proof -
  have "items (fst (removeFromCart cart u)) = xs @ ys"
    if "distinct (map uid (items cart))" "items cart = xs @ [item] @ ys" "uid item = u"
  proof -
    from that have "u \<notin> set (map uid xs)" "u \<notin> set (map uid ys)"
      by auto
    then show ?thesis
      using that by (simp add: removeFromCart_def filter_uid_absent)
  qed
  then show ?thesis
    by (auto simp: removeFromCart_def)
qed

theorem removeFromCart_excludes_uid_witness:
  "items (fst (removeFromCart two_items 7)) = [ItemInstance 8 ''2'' 3 []] \<and>
   items (fst (removeFromCart two_items 9)) = items two_items"
  using removeFromCart_excludes_uid
      [of 7 two_items "[]" "ItemInstance 7 ''1:0:1'' 1 []" "[ItemInstance 8 ''2'' 3 []]"]
    removeFromCart_excludes_uid [of 9 two_items]
  by (simp add: two_items_def)

text \<open>
  C8: given a uid that no item of the cart has, \<^verbatim>\<open>removeFromCart\<close> and \<^verbatim>\<open>replaceInCart\<close>
  report the failure \<^verbatim>\<open>NotFound\<close> for that uid, the cart staying as it was; they report no
  failure exactly when an item of the cart has the uid, so a uid that matches no item is
  never passed over in silence.
\<close>

theorem absent_uid_is_reported:
  "(u \<notin> set (map uid (items cart)) \<longrightarrow> removeFromCart cart u = (cart, Some (NotFound u))) \<and>
   (uid item \<notin> set (map uid (items cart)) \<longrightarrow>
      replaceInCart cart item = (cart, Some (NotFound (uid item)))) \<and>
   (snd (removeFromCart cart u) = None \<longleftrightarrow> u \<in> set (map uid (items cart))) \<and>
   (snd (replaceInCart cart item) = None \<longleftrightarrow> uid item \<in> set (map uid (items cart)))"
  by (simp add: removeFromCart_def replaceInCart_def)

theorem absent_uid_is_reported_witness:
  "removeFromCart two_items 10 = (two_items, Some (NotFound 10)) \<and>
   replaceInCart two_items (ItemInstance 11 ''2'' 1 []) = (two_items, Some (NotFound 11)) \<and>
   snd (removeFromCart two_items 7) = None \<and>
   snd (replaceInCart two_items (ItemInstance 8 ''2'' 1 [])) = None"
  using absent_uid_is_reported [of 10 two_items "ItemInstance 11 ''2'' 1 []"]
    absent_uid_is_reported [of 7 two_items "ItemInstance 8 ''2'' 1 []"]
  by (simp add: two_items_def)

end
